theory Spec2Isabelle
  imports Main
begin

section \<open>JavaScript values\<close>

text \<open>
  The storage object (\<open>this.storage.state\<close>, an Immutable Map keyed by strings) holds
  JSON values: strings, booleans, \<open>null\<close>; a key that is missing reads as
  \<open>undefined\<close>.
\<close>

datatype jsval = VUndefined | VNull | VBool bool | VStr string

text \<open>
  The fields of a server reply and the two status fields of the container are strings
  when present (the transport contract); they can also be \<open>null\<close> or
  \<open>undefined\<close>.
\<close>

datatype jsstr = SUndefined | SNull | SStr string

fun js :: "jsstr \<Rightarrow> jsval" where
  "js SUndefined = VUndefined"
| "js SNull = VNull"
| "js (SStr s) = VStr s"

text \<open>Truthiness: \<open>if (x)\<close>, \<open>! x\<close>, \<open>assert(x)\<close>.\<close>

fun truthy :: "jsval \<Rightarrow> bool" where
  "truthy VUndefined = False"
| "truthy VNull = False"
| "truthy (VBool b) = b"
| "truthy (VStr s) = (s \<noteq> [])"

text \<open>\<open>x == null\<close>: true of \<open>null\<close> and of \<open>undefined\<close>.\<close>

fun nullish :: "jsval \<Rightarrow> bool" where
  "nullish VUndefined = True"
| "nullish VNull = True"
| "nullish (VBool b) = False"
| "nullish (VStr s) = False"

text \<open>
  Loose equality \<open>a == b\<close> (also what \<open>assert.equal\<close> tests) on values that are
  strings, \<open>null\<close> or \<open>undefined\<close>: \<open>null == undefined\<close>, and two strings are
  equal when they are the same string.
\<close>

fun loose_eq :: "jsstr \<Rightarrow> jsstr \<Rightarrow> bool" where
  "loose_eq (SStr a) (SStr b) = (a = b)"
| "loose_eq (SStr a) v = False"
| "loose_eq v (SStr b) = False"
| "loose_eq v w = True"

text \<open>\<open>String(x)\<close>, as \<open>RegExp.prototype.test\<close> converts its argument.\<close>

fun toString :: "jsstr \<Rightarrow> string" where
  "toString SUndefined = ''undefined''"
| "toString SNull = ''null''"
| "toString (SStr s) = s"

fun starts_with :: "string \<Rightarrow> string \<Rightarrow> bool" where
  "starts_with s [] = True"
| "starts_with [] (p # ps) = False"
| "starts_with (c # cs) (p # ps) = (c = p \<and> starts_with cs ps)"

fun str_includes :: "string \<Rightarrow> string \<Rightarrow> bool" where
  "str_includes [] p = (p = [])"
| "str_includes (c # cs) p = (starts_with (c # cs) p \<or> str_includes cs p)"

text \<open>
  \<open>/A|B|C/.test(x)\<close> for a regular expression that is an alternation of literal
  strings: some alternative occurs somewhere in \<open>String(x)\<close>.
\<close>

definition regex_test :: "string list \<Rightarrow> jsstr \<Rightarrow> bool" where
  "regex_test alternatives x = list_ex (str_includes (toString x)) alternatives"

section \<open>The wallet object\<close>

text \<open>
  \<open>this.wallet_object\<close> is an Immutable Map holding JSON-serialisable data only. A
  map is a list of entries, one per key, in insertion order.
\<close>

datatype json =
    JObject "(string \<times> json) list"
  | JArray "json list"
  | JString string
  | JNumber int
  | JBoolean bool
  | JNull

type_synonym jmap = "(string \<times> json) list"

text \<open>\<open>Map.has\<close>, \<open>Map.get\<close>, \<open>Map.set\<close> and the shallow \<open>Map.merge\<close>.\<close>

definition has_key :: "jmap \<Rightarrow> string \<Rightarrow> bool" where
  "has_key m k = (map_of m k \<noteq> None)"

definition get_key :: "jmap \<Rightarrow> string \<Rightarrow> json option" where
  "get_key m k = map_of m k"

fun set_key :: "jmap \<Rightarrow> string \<Rightarrow> json \<Rightarrow> jmap" where
  "set_key [] k v = [(k, v)]"
| "set_key ((k', v') # m) k v = (if k' = k then (k, v) # m else (k', v') # set_key m k v)"

fun merge_shallow :: "jmap \<Rightarrow> jmap \<Rightarrow> jmap" where
  "merge_shallow m [] = m"
| "merge_shallow m ((k, v) # kvs) = merge_shallow (set_key m k v) kvs"

section \<open>External collaborators\<close>

datatype Buffer = Buffer string
datatype PrivateKey = PrivateKey string
datatype PublicKey = PublicKey string
datatype Signature = Signature string

text \<open>
  The elliptic curve library, the backup encryption, Node's Buffer, Immutable's deep
  merge and the string functions of the JavaScript engine are not part of
  WalletStorage.js. They are parameters of every operation:
  \<^item> \<open>fromSeed\<close>, \<open>toPublicKey\<close>: \<open>PrivateKey.fromSeed\<close>, \<open>private_key.toPublicKey()\<close>;
  \<^item> \<open>encrypt\<close>, \<open>decrypt\<close>: the functions of \<open>./Backup\<close>; \<open>decrypt\<close> is \<open>None\<close> when its
    promise is rejected (a wrong key);
  \<^item> \<open>sha256\<close>: \<open>hash.sha256\<close>; \<open>signBufferSha256\<close>: \<open>Signature.signBufferSha256\<close>;
  \<^item> \<open>to_base64\<close>: \<open>buffer.toString('base64')\<close>; \<open>from_base64\<close>:
    \<open>new Buffer(string, 'base64')\<close>;
  \<^item> \<open>mergeDeep\<close>: \<open>map.mergeDeep(fromJS(x))\<close>. Immutable returns the receiver itself
    when the merge alters no entry, so the test \<open>this.wallet_object === wallet_object\<close>
    on its result is the equality of the two trees;
  \<^item> \<open>is_space\<close>: the characters that \<open>String.prototype.trim\<close> strips (the engine's
    white space and line terminators);
  \<^item> \<open>lower_case\<close>: \<open>String.prototype.toLowerCase\<close> on a string that is not empty.
\<close>

record ext =
  fromSeed :: "string \<Rightarrow> PrivateKey"
  toPublicKey :: "PrivateKey \<Rightarrow> PublicKey"
  encrypt :: "jmap \<Rightarrow> PublicKey \<Rightarrow> Buffer"
  decrypt :: "Buffer \<Rightarrow> PrivateKey \<Rightarrow> jmap option"
  sha256 :: "Buffer \<Rightarrow> Buffer"
  signBufferSha256 :: "Buffer \<Rightarrow> PrivateKey \<Rightarrow> Signature"
  to_base64 :: "Buffer \<Rightarrow> string"
  from_base64 :: "string \<Rightarrow> Buffer"
  mergeDeep :: "jmap \<Rightarrow> json \<Rightarrow> jmap"
  is_space :: "char \<Rightarrow> bool"
  lower_case :: "string \<Rightarrow> string"

text \<open>
  \<open>s.trim()\<close>: \<open>s\<close> without the white space at its two ends. \<open>s.toLowerCase()\<close>: the
  empty string for the empty string, the engine's mapping otherwise.
\<close>

definition trim :: "ext \<Rightarrow> string \<Rightarrow> string" where
  "trim cr s = rev (dropWhile (is_space cr) (rev (dropWhile (is_space cr) s)))"

definition toLowerCase :: "ext \<Rightarrow> string \<Rightarrow> string" where
  "toLowerCase cr s = (if s = [] then [] else lower_case cr s)"

section \<open>Errors and results\<close>

text \<open>
  One constructor per error the code raises:
  \<^item> \<open>WalletLocked\<close>: \<open>Error("wallet_locked")\<close> (setState);
  \<^item> \<open>Locked\<close>: \<open>Error("Wallet is locked")\<close>;
  \<^item> \<open>Required f\<close>: \<open>Error(f + "_required")\<close> (req);
  \<^item> \<open>WalletEmpty\<close>: \<open>Error("wallet_empty")\<close>;
  \<^item> \<open>WalletModified\<close>: \<open>Error("wallet_modified: Can't change password, ...")\<close>;
  \<^item> \<open>Conflict\<close>: \<open>Error("... Conflict, both server and local wallet modified")\<close>;
  \<^item> \<open>UnexpectedStatus s\<close>: \<open>Error("Unexpected WalletApi.saveWallet status: " + s)\<close>;
  \<^item> \<open>AssertionError m\<close>: a failed \<open>assert\<close> with message \<open>m\<close>;
  \<^item> \<open>ReferenceError x\<close>: the identifier \<open>x\<close> is not declared;
  \<^item> \<open>TypeError\<close>: a method call on \<open>undefined\<close> or \<open>null\<close>, or \<open>new Buffer\<close> of a
    value that is no string;
  \<^item> \<open>DecryptError\<close>: the rejection of \<open>decrypt\<close>;
  \<^item> \<open>TransportError m\<close>: the rejection of a transport call.

  An assertion's message is the text given in the code; where the code builds it from
  \<open>this.instance\<close> or a value, only the fixed words are kept, and an \<open>assert\<close>
  without a message has the empty one.
\<close>

datatype error =
    WalletLocked
  | Locked
  | Required string
  | WalletEmpty
  | WalletModified
  | Conflict
  | UnexpectedStatus jsstr
  | AssertionError string
  | ReferenceError string
  | TypeError
  | DecryptError
  | TransportError string

text \<open>
  What a call does: it throws before returning (\<open>Throws\<close>), or returns a promise that
  is rejected (\<open>Rejects\<close>) or fulfilled (\<open>Resolves\<close>; the value is not modelled). A
  function that returns no promise and does not throw is \<open>Resolves\<close> as well.
\<close>

datatype outcome = Throws error | Rejects error | Resolves

text \<open>
  A throw inside a \<open>then\<close> callback rejects the promise that \<open>then\<close> returned.
\<close>

fun in_promise :: "outcome \<Rightarrow> outcome" where
  "in_promise (Throws e) = Rejects e"
| "in_promise r = r"

section \<open>The transport\<close>

text \<open>
  The JSON a transport call resolves to, or the server wallet the fetch callback
  receives.
\<close>

record reply =
  r_statusText :: jsstr
  r_local_hash :: jsstr
  r_encrypted_data :: jsstr
  r_created :: jsstr
  r_updated :: jsstr

text \<open>
  A transport call's promise: fulfilled with a reply, or rejected. An operation is run
  to its end, the transport's answer to the one call it makes being an argument;
  operations that are in flight at the same time are not interleaved.
\<close>

datatype response = Reply reply | Failure string

text \<open>
  The calls the container makes on its collaborators are recorded, oldest first:
  encryptions, the transport calls with their arguments, and each subscriber callback
  that is run.
\<close>

datatype event =
    Encrypt PublicKey
  | CreateWallet jsval Buffer Signature
  | SaveWallet Buffer Buffer Signature
  | DeleteWallet Buffer Signature
  | ChangePassword Buffer Signature Buffer Signature
  | FetchWalletUnsubscribe PublicKey
  | Notified nat

section \<open>The container\<close>

text \<open>
  \<open>api\<close> is \<open>this.api != null\<close>; \<open>subscriptions\<close> are the public keys for which
  \<open>this.ws_rpc.getSubscriptionId("fetchWallet", key)\<close> is truthy (the test that
  \<open>changePassword\<close> makes); \<open>subscribers\<close> are the registered callbacks, by identity;
  \<open>calls\<close> is the record of calls made so far.
\<close>

record WalletStorage =
  wallet_object :: jmap
  storage :: "string \<rightharpoonup> jsval"
  subscribers :: "nat list"
  local_status :: jsstr
  remote_status :: jsstr
  private_key :: "PrivateKey option"
  notify :: bool
  api :: bool
  subscriptions :: "PublicKey list"
  calls :: "event list"

text \<open>\<open>this.storage.state.get(k)\<close> and \<open>this.storage.state.has(k)\<close>.\<close>

definition state_get :: "(string \<rightharpoonup> jsval) \<Rightarrow> string \<Rightarrow> jsval" where
  "state_get m k = (case m k of None \<Rightarrow> VUndefined | Some v \<Rightarrow> v)"

definition state_has :: "(string \<rightharpoonup> jsval) \<Rightarrow> string \<Rightarrow> bool" where
  "state_has m k = (m k \<noteq> None)"

text \<open>
  Modelled from the spec: \<open>this.storage.setState\<close> belongs to LocalStoragePersistence,
  which is not among the sources. The state store contract says of \<open>set_state(partial)\<close>:
  merge-overwrite; \<open>undefined\<close> values delete the field.
\<close>

fun storage_setState ::
  "(string \<rightharpoonup> jsval) \<Rightarrow> (string \<times> jsval) list \<Rightarrow> (string \<rightharpoonup> jsval)" where
  "storage_setState m [] = m"
| "storage_setState m ((k, v) # kvs) =
     storage_setState (if v = VUndefined then m(k := None) else m(k \<mapsto> v)) kvs"

subsection \<open>notifySubscribers, notifyResolve\<close>

text \<open>
  \<open>notifySubscribers\<close>: nothing unless \<open>this.notify\<close>; else the flag is cleared and
  every callback is run once. What a callback does is its own business; its run is
  recorded.
\<close>

definition notifySubscribers :: "WalletStorage \<Rightarrow> WalletStorage" where
  "notifySubscribers st =
     (if notify st
      then st\<lparr>notify := False, calls := calls st @ map Notified (subscribers st)\<rparr>
      else st)"

text \<open>
  \<open>notifyResolve(promise)\<close>: the subscribers are notified once the promise has settled,
  fulfilled or rejected, and the result is passed on. When the expression that computes
  the promise throws, \<open>notifyResolve\<close> is never entered.
\<close>

fun notifyResolve :: "outcome \<times> WalletStorage \<Rightarrow> outcome \<times> WalletStorage" where
  "notifyResolve (Throws e, st) = (Throws e, st)"
| "notifyResolve (r, st) = (r, notifySubscribers st)"

subsection \<open>localHash, toBase64, req\<close>

text \<open>\<open>new Buffer(x, 'base64')\<close>: a TypeError unless \<open>x\<close> is a string.\<close>

fun new_Buffer :: "ext \<Rightarrow> jsval \<Rightarrow> error + Buffer" where
  "new_Buffer cr (VStr s) = Inr (from_base64 cr s)"
| "new_Buffer cr v = Inl TypeError"

text \<open>\<open>localHash()\<close>: a Buffer, or \<open>undefined\<close> (here \<open>None\<close>).\<close>

definition localHash :: "ext \<Rightarrow> WalletStorage \<Rightarrow> error + Buffer option" where
  "localHash cr st =
     (let encrypted_wallet = state_get (storage st) ''encrypted_wallet'' in
      if \<not> truthy encrypted_wallet then Inr None
      else case new_Buffer cr encrypted_wallet of
             Inl e \<Rightarrow> Inl e
           | Inr b \<Rightarrow> Inr (Some (sha256 cr b)))"

text \<open>\<open>toBase64\<close> of what \<open>localHash()\<close> returned.\<close>

fun toBase64 :: "ext \<Rightarrow> Buffer option \<Rightarrow> jsval" where
  "toBase64 cr None = VUndefined"
| "toBase64 cr (Some b) = VStr (to_base64 cr b)"

text \<open>\<open>req(data, field_name)\<close>; an argument that was not passed is \<open>None\<close>.\<close>

definition req :: "string option \<Rightarrow> string \<Rightarrow> error + string" where
  "req data field_name = (case data of None \<Rightarrow> Inl (Required field_name) | Some d \<Rightarrow> Inr d)"

subsection \<open>updateWallet\<close>

text \<open>
  \<open>updateWallet(private_key = this.private_key)\<close>; \<open>resp\<close> is what the transport
  answers to the one call made (\<open>createWallet\<close> or \<open>saveWallet\<close>), if one is made.
\<close>

definition updateWallet ::
  "ext \<Rightarrow> WalletStorage \<Rightarrow> PrivateKey option \<Rightarrow> response \<Rightarrow> outcome \<times> WalletStorage" where
  "updateWallet cr st private_key_arg resp =
     (case (case private_key_arg of None \<Rightarrow> private_key st | Some k \<Rightarrow> Some k) of
        None \<Rightarrow> (Throws Locked, st)
      | Some pk \<Rightarrow>
          let public_key = toPublicKey cr pk;
              remote_copy = state_get (storage st) ''remote_copy'';
              code = state_get (storage st) ''remote_token'';
              encrypted_data = encrypt cr (wallet_object st) public_key;
              st1 = st\<lparr>storage := storage_setState (storage st)
                          [(''encrypted_wallet'', VStr (to_base64 cr encrypted_data))],
                        local_status := SNull,
                        notify := True,
                        calls := calls st @ [Encrypt public_key]\<rparr>
          in
          if \<not> (api st1 \<and> remote_copy = VBool True) then (Resolves, st1)
          else if nullish code \<and> remote_status st1 = SStr ''No Content'' then (Resolves, st1)
          else
            let local_hash_buffer = sha256 cr encrypted_data;
                local_hash = to_base64 cr local_hash_buffer;
                signature = signBufferSha256 cr local_hash_buffer pk;
                remote_hash = state_get (storage st1) ''remote_hash''
            in
            if \<not> nullish code \<and> nullish remote_hash then
              (if \<not> loose_eq (remote_status st1) (SStr ''No Content'')
               then (Rejects (AssertionError ''remote_status''), st1)
               else
                 let st2 = st1\<lparr>calls := calls st1 @ [CreateWallet code encrypted_data signature]\<rparr>
                 in
                 case resp of
                   Failure m \<Rightarrow> (Rejects (TransportError m), st2)
                 | Reply json \<Rightarrow>
                     if \<not> loose_eq (r_local_hash json) (SStr local_hash)
                     then (Rejects (AssertionError ''local_hash''), st2)
                     else if \<not> truthy (js (r_created json))
                     then (Rejects (AssertionError ''created''), st2)
                     else
                       (Resolves,
                        st2\<lparr>storage := storage_setState (storage st2)
                                [(''remote_token'', VNull),
                                 (''remote_hash'', VStr local_hash),
                                 (''remote_created_date'', js (r_created json)),
                                 (''remote_updated_date'', js (r_created json))],
                            remote_status := SStr ''Not Modified'',
                            notify := True\<rparr>))
            else
              (if \<not> truthy remote_hash
               then (Rejects (AssertionError ''Can't update the server wallet''), st1)
               else if \<not> regex_test [''OK'', ''Not Modified''] (remote_status st1)
               then (Rejects (AssertionError ''remote_status''), st1)
               else
                 case new_Buffer cr remote_hash of
                   Inl e \<Rightarrow> (Rejects e, st1)
                 | Inr remote_hash_buffer \<Rightarrow>
                     let st2 = st1\<lparr>calls := calls st1 @
                                 [SaveWallet remote_hash_buffer encrypted_data signature]\<rparr>
                     in
                     case resp of
                       Failure m \<Rightarrow> (Rejects (TransportError m), st2)
                     | Reply json \<Rightarrow>
                         if r_statusText json = SStr ''OK'' then
                           (if \<not> loose_eq (r_local_hash json) (SStr local_hash)
                            then (Rejects (AssertionError ''local_hash''), st2)
                            else if \<not> truthy (js (r_updated json))
                            then (Rejects (AssertionError ''updated''), st2)
                            else
                              (Resolves,
                               st2\<lparr>storage := storage_setState (storage st2)
                                       [(''remote_hash'', VStr local_hash),
                                        (''remote_updated_date'', js (r_updated json))],
                                   remote_status := SStr ''Not Modified'',
                                   notify := True\<rparr>))
                         else
                           (Rejects (UnexpectedStatus (r_statusText json)),
                            st2\<lparr>notify := True, remote_status := r_statusText json\<rparr>)))"

subsection \<open>deleteRemoteWallet\<close>

text \<open>
  The \<open>hash\<close> argument of \<open>deleteRemoteWallet(private_key, hash = this.localHash())\<close>: a
  Buffer, or a value that is not one. \<open>undefined\<close> (also: no argument) takes the
  default; \<open>localHash()\<close> may itself be \<open>undefined\<close>, and \<open>new Buffer\<close> of \<open>undefined\<close>
  or \<open>null\<close> is a TypeError. So is \<open>this.api.deleteWallet\<close> on a container without a
  transport (\<open>this.api\<close> is \<open>null\<close> or \<open>undefined\<close>).
\<close>

datatype hash_arg = HBuffer Buffer | HValue jsstr

definition hash_buffer :: "ext \<Rightarrow> WalletStorage \<Rightarrow> hash_arg \<Rightarrow> error + Buffer" where
  "hash_buffer cr st hash =
     (case hash of
        HBuffer b \<Rightarrow> Inr b
      | HValue SUndefined \<Rightarrow>
          (case localHash cr st of
             Inl e \<Rightarrow> Inl e
           | Inr None \<Rightarrow> Inl TypeError
           | Inr (Some b) \<Rightarrow> Inr b)
      | HValue v \<Rightarrow> new_Buffer cr (js v))"

definition deleteRemoteWallet ::
  "ext \<Rightarrow> WalletStorage \<Rightarrow> PrivateKey \<Rightarrow> hash_arg \<Rightarrow> response \<Rightarrow> outcome \<times> WalletStorage" where
  "deleteRemoteWallet cr st pk hash_argument resp =
     (case hash_buffer cr st hash_argument of
        Inl e \<Rightarrow> (Throws e, st)
      | Inr hash \<Rightarrow>
          let signature = signBufferSha256 cr hash pk in
          if \<not> api st then (Throws TypeError, st)
          else
            let st1 = st\<lparr>calls := calls st @ [DeleteWallet hash signature]\<rparr> in
            case resp of
              Failure m \<Rightarrow> (Rejects (TransportError m), st1)
            | Reply json \<Rightarrow>
                (Resolves,
                 st1\<lparr>notify := True,
                     storage := storage_setState (storage st1)
                       [(''remote_hash'', VUndefined),
                        (''remote_created_date'', VUndefined),
                        (''remote_updated_date'', VUndefined)]\<rparr>))"

subsection \<open>saveServerWallet\<close>

definition saveServerWallet ::
  "ext \<Rightarrow> WalletStorage \<Rightarrow> reply \<Rightarrow> PrivateKey \<Rightarrow> outcome \<times> WalletStorage" where
  "saveServerWallet cr st server_wallet pk =
     (case new_Buffer cr (js (r_encrypted_data server_wallet)) of
        Inl e \<Rightarrow> (Throws e, st)
      | Inr backup_buffer \<Rightarrow>
          (case decrypt cr backup_buffer pk of
             None \<Rightarrow> (Rejects DecryptError, st)
           | Some decrypted \<Rightarrow>
               (Resolves,
                st\<lparr>storage := storage_setState (storage st)
                       [(''remote_token'', VNull),
                        (''remote_hash'', js (r_local_hash server_wallet)),
                        (''encrypted_wallet'', js (r_encrypted_data server_wallet)),
                        (''remote_updated_date'', js (r_updated server_wallet)),
                        (''remote_created_date'', js (r_created server_wallet))],
                   wallet_object := decrypted,
                   local_status := SNull,
                   notify := True\<rparr>)))"

subsection \<open>fetchWallet\<close>

text \<open>
  The locals of \<open>fetchWallet\<close> once its first part (up to the update of
  \<open>this.remote_status\<close>) has run.
\<close>

record fetched =
  has_local :: bool
  local_hash :: jsstr
  old_hash :: jsval
  new_hash :: jsstr
  has_remote :: bool
  statusText :: jsstr

text \<open>
  The first part of \<open>fetchWallet\<close>: the hashes are read, \<open>remote_hash\<close> is stored,
  a missing \<open>statusText\<close> is filled in and validated, and \<open>this.remote_status\<close> follows
  it. \<open>this.localHash().toString("base64")\<close> is a TypeError when \<open>localHash()\<close> is
  \<open>undefined\<close>.
\<close>

definition fetchWallet_begin ::
  "ext \<Rightarrow> WalletStorage \<Rightarrow> reply \<Rightarrow> (error + fetched) \<times> WalletStorage" where
  "fetchWallet_begin cr st server_wallet =
     (let has_local' = state_has (storage st) ''encrypted_wallet'' in
      case (if has_local'
            then (case localHash cr st of
                    Inl e \<Rightarrow> Inl e
                  | Inr None \<Rightarrow> Inl TypeError
                  | Inr (Some b) \<Rightarrow> Inr (SStr (to_base64 cr b)))
            else Inr SNull) of
        Inl e \<Rightarrow> (Inl e, st)
      | Inr local_hash' \<Rightarrow>
          let old_hash' = state_get (storage st) ''remote_hash'';
              new_hash' = r_local_hash server_wallet;
              has_remote' = (\<not> nullish (js new_hash'));
              st1 = st\<lparr>storage := storage_setState (storage st)
                          [(''remote_hash'', js new_hash')]\<rparr>;
              statusText' =
                (if \<not> truthy (js (r_statusText server_wallet))
                 then SStr (if \<not> has_remote' then ''No Content''
                            else if local_hash' = new_hash' then ''Not Modified''
                            else ''OK'')
                 else r_statusText server_wallet)
          in
          if \<not> regex_test [''OK'', ''No Content'', ''Not Modified''] statusText'
          then (Inl (AssertionError ''Invalid status''), st1)
          else
            (Inr \<lparr>has_local = has_local', local_hash = local_hash', old_hash = old_hash',
                  new_hash = new_hash', has_remote = has_remote', statusText = statusText'\<rparr>,
             if \<not> loose_eq (remote_status st1) statusText'
             then st1\<lparr>remote_status := statusText', notify := True\<rparr>
             else st1))"

text \<open>\<open>promise.then(() => this.remote_status = "Not Modified")\<close>.\<close>

fun then_not_modified :: "outcome \<times> WalletStorage \<Rightarrow> outcome \<times> WalletStorage" where
  "then_not_modified (Resolves, st) = (Resolves, st\<lparr>remote_status := SStr ''Not Modified''\<rparr>)"
| "then_not_modified (r, st) = (r, st)"

text \<open>
  The rest of \<open>fetchWallet\<close>: the decision between deleting the server's wallet,
  pushing the local one, pulling the server's, doing nothing, and a conflict.
\<close>

definition fetchWallet_reconcile ::
  "ext \<Rightarrow> WalletStorage \<Rightarrow> fetched \<Rightarrow> reply \<Rightarrow> PrivateKey \<Rightarrow> response
     \<Rightarrow> outcome \<times> WalletStorage" where
  "fetchWallet_reconcile cr st f server_wallet pk resp =
     (if has_remote f \<and> state_get (storage st) ''remote_copy'' = VBool False
      then deleteRemoteWallet cr (st\<lparr>notify := True\<rparr>) pk (HValue (new_hash f)) resp
      else if \<not> has_remote f \<and> \<not> has_local f
      then (if regex_test [''No Content''] (statusText f) then (Resolves, st)
            else (Throws (AssertionError []), st))
      else
        let st1 = st\<lparr>notify := True\<rparr> in
        if \<not> has_remote f
        then then_not_modified (updateWallet cr st1 (Some pk) resp)
        else if \<not> has_local f
        then then_not_modified (saveServerWallet cr st1 server_wallet pk)
        else if local_hash f = new_hash f
        then (Resolves, st1)
        else
          let local_mod = (js (local_hash f) \<noteq> old_hash f);
              server_mod = (old_hash f \<noteq> js (new_hash f))
          in
          if local_mod \<and> server_mod
          then (Throws Conflict, st1\<lparr>remote_status := SStr ''Conflict''\<rparr>)
          else if local_mod
          then updateWallet cr st1 (Some pk) resp
          else if server_mod
          then then_not_modified (saveServerWallet cr st1 server_wallet pk)
          else if old_hash f = js (new_hash f) then (Resolves, st1)
          else (Throws (AssertionError ''Conflict''), st1))"

definition fetchWallet ::
  "ext \<Rightarrow> WalletStorage \<Rightarrow> reply \<Rightarrow> PrivateKey \<Rightarrow> response \<Rightarrow> outcome \<times> WalletStorage" where
  "fetchWallet cr st server_wallet pk resp =
     (case fetchWallet_begin cr st server_wallet of
        (Inl e, st1) \<Rightarrow> (Throws e, st1)
      | (Inr f, st1) \<Rightarrow> fetchWallet_reconcile cr st1 f server_wallet pk resp)"

text \<open>
  \<open>fetchWalletCallback\<close>: \<open>fetchWallet\<close> runs inside a promise; for a subscription
  event (no \<open>statusText\<close>) the subscribers are notified when it has settled.
\<close>

definition fetchWalletCallback ::
  "ext \<Rightarrow> WalletStorage \<Rightarrow> reply \<Rightarrow> PrivateKey \<Rightarrow> response \<Rightarrow> outcome \<times> WalletStorage" where
  "fetchWalletCallback cr st server_wallet pk resp =
     (let subscriptionRequest = (\<not> truthy (js (r_statusText server_wallet)));
          fetchPromise = (case fetchWallet cr st server_wallet pk resp of
                            (r, st') \<Rightarrow> (in_promise r, st'))
      in if subscriptionRequest then notifyResolve fetchPromise else fetchPromise)"

subsection \<open>setState\<close>

text \<open>
  \<open>setState(wallet_object)\<close>; \<open>now\<close> is \<open>new Date().toISOString()\<close>, \<open>resp\<close> the
  transport's answer to the call \<open>updateWallet\<close> may make.
\<close>

definition setState ::
  "ext \<Rightarrow> string \<Rightarrow> WalletStorage \<Rightarrow> json \<Rightarrow> response \<Rightarrow> outcome \<times> WalletStorage" where
  "setState cr now st wallet_object_arg resp =
     (if private_key st = None then (Throws WalletLocked, st)
      else if \<not> has_key (wallet_object st) ''created''
      then (Throws (AssertionError ''Login to create wallet''), st)
      else
        let merged = mergeDeep cr (wallet_object st) wallet_object_arg in
        if wallet_object st = merged then (Resolves, st)
        else
          notifyResolve
            (updateWallet cr
               (st\<lparr>notify := True,
                   local_status := SStr ''Pending'',
                   wallet_object := set_key merged ''last_modified'' (JString now)\<rparr>)
               None resp))"

subsection \<open>changePassword\<close>

text \<open>
  \<open>changePassword(password, email = "", username = "")\<close>; an argument that is not
  passed is \<open>None\<close>, \<open>now\<close> is \<open>new Date().toISOString()\<close>.

  With a transport and \<open>remote_copy === true\<close>, the callback that runs once the wallet
  is encrypted stores the new ciphertext, unsubscribes the old public key when it is
  subscribed, and then evaluates
  \<open>Signature.signBufferSha256(original_local_hash, old_private_key)\<close>. No
  \<open>old_private_key\<close> is declared anywhere in the module, so this is a ReferenceError,
  which the \<open>catch\<close> that follows turns into the rejection of the returned promise. The
  rest of the callback (the second signature, \<open>this.api.changePassword\<close>, the handling
  of its reply and \<open>this.private_key = new_private_key\<close>) is never run.
\<close>

definition changePassword ::
  "ext \<Rightarrow> string \<Rightarrow> WalletStorage \<Rightarrow> string option \<Rightarrow> string option \<Rightarrow> string option
     \<Rightarrow> outcome \<times> WalletStorage" where
  "changePassword cr now st password_arg email_arg username_arg =
     (let email = (case email_arg of None \<Rightarrow> [] | Some e \<Rightarrow> e);
          username = (case username_arg of None \<Rightarrow> [] | Some u \<Rightarrow> u)
      in
      case req password_arg ''password'' of
        Inl e \<Rightarrow> (Throws e, st)
      | Inr password \<Rightarrow>
          (case private_key st of
             None \<Rightarrow> (Throws Locked, st)
           | Some old_key \<Rightarrow>
               if \<not> truthy (state_get (storage st) ''encrypted_wallet'')
               then (Throws WalletEmpty, st)
               else
                 let new_private_key =
                       fromSeed cr (toLowerCase cr (trim cr email) @ [CHR 0x09] @
                                    toLowerCase cr (trim cr username) @ [CHR 0x09] @
                                    password);
                     weak_password = (trim cr email = [] \<or> trim cr username = [])
                 in
                 if weak_password \<and> truthy (state_get (storage st) ''remote_copy'')
                 then (Throws (AssertionError
                         ''Remote copies are enabled, but an email or username is missing''),
                       st)
                 else
                   let old_public_key = toPublicKey cr old_key in
                   case localHash cr st of
                     Inl e \<Rightarrow> (Throws e, st)
                   | Inr original_local_hash \<Rightarrow>
                       let remote_copy = state_get (storage st) ''remote_copy'' in
                       if remote_copy = VBool True \<and>
                          toBase64 cr original_local_hash \<noteq> state_get (storage st) ''remote_hash''
                       then (Throws WalletModified, st)
                       else
                         let new_public_key = toPublicKey cr new_private_key;
                             st1 = st\<lparr>wallet_object :=
                                      merge_shallow (wallet_object st)
                                        [(''last_modified'', JString now),
                                         (''weak_password'', JBoolean weak_password)]\<rparr>;
                             encrypted_data = encrypt cr (wallet_object st1) new_public_key;
                             st2 = st1\<lparr>storage := storage_setState (storage st1)
                                        [(''encrypted_wallet'',
                                          VStr (to_base64 cr encrypted_data))],
                                      local_status := SNull,
                                      notify := True,
                                      calls := calls st1 @ [Encrypt new_public_key]\<rparr>
                         in
                         if \<not> (api st2 \<and> remote_copy = VBool True)
                         then notifyResolve
                                (Resolves, st2\<lparr>private_key := Some new_private_key\<rparr>)
                         else
                           let st3 =
                                 (if old_public_key \<in> set (subscriptions st2)
                                  then st2\<lparr>calls := calls st2 @
                                             [FetchWalletUnsubscribe old_public_key]\<rparr>
                                  else st2)
                           in (Rejects (ReferenceError ''old_private_key''), st3)))"

section \<open>A small instance\<close>

text \<open>
  Modelled from the spec: Immutable's \<open>mergeDeep\<close> is a library function; the spec
  says of it that maps merge recursively while arrays and scalars overwrite.
\<close>

fun merge_deep :: "json \<Rightarrow> json \<Rightarrow> json"
and merge_entries :: "jmap \<Rightarrow> jmap \<Rightarrow> jmap"
and merge_entry :: "jmap \<Rightarrow> string \<Rightarrow> json \<Rightarrow> jmap" where
  "merge_deep (JObject a) (JObject b) = JObject (merge_entries a b)"
| "merge_deep old new = new"
| "merge_entries a [] = a"
| "merge_entries a ((k, v) # b) = merge_entries (merge_entry a k v) b"
| "merge_entry [] k v = [(k, v)]"
| "merge_entry ((k', v') # a) k v =
     (if k' = k then (k, merge_deep v' v) # a else (k', v') # merge_entry a k v)"

definition mergeDeep_spec :: "jmap \<Rightarrow> json \<Rightarrow> jmap" where
  "mergeDeep_spec m x = (case x of JObject b \<Rightarrow> merge_entries m b | _ \<Rightarrow> m)"

text \<open>White space and lower case on ASCII text, for the instance below.\<close>

definition ascii_space :: "char \<Rightarrow> bool" where
  "ascii_space c = (c \<in> set [CHR 0x09, CHR 0x0A, CHR 0x0B, CHR 0x0C, CHR 0x0D, CHR 0x20])"

definition ascii_lower :: "char \<Rightarrow> char" where
  "ascii_lower c =
     (let n = (of_char c :: nat) in if 65 \<le> n \<and> n \<le> 90 then char_of (n + 32) else c)"

text \<open>
  An instance of the collaborators on which the operations can be run: keys, buffers
  and signatures are small strings, the "hash" of a buffer is its reversal, base64 is
  the identity and the text is ASCII. The general theorems below hold for every
  instance; this one only serves to run the operations on examples.
\<close>

definition demo_ext :: ext where
  "demo_ext =
     \<lparr>fromSeed = PrivateKey,
      toPublicKey = (\<lambda>k. case k of PrivateKey s \<Rightarrow> PublicKey s),
      encrypt = (\<lambda>w k. case k of PublicKey s \<Rightarrow> Buffer (s @ concat (map fst w))),
      decrypt = (\<lambda>b k. None),
      sha256 = (\<lambda>b. case b of Buffer s \<Rightarrow> Buffer (rev s)),
      signBufferSha256 =
        (\<lambda>b k. case b of Buffer s \<Rightarrow> (case k of PrivateKey p \<Rightarrow> Signature (p @ s))),
      to_base64 = (\<lambda>b. case b of Buffer s \<Rightarrow> s),
      from_base64 = Buffer,
      mergeDeep = mergeDeep_spec,
      is_space = ascii_space,
      lower_case = map ascii_lower\<rparr>"

text \<open>
  An unlocked container in sync with the server: the stored \<open>remote_hash\<close> is the hash
  of the stored ciphertext.
\<close>

definition synced_container :: WalletStorage where
  "synced_container =
     \<lparr>wallet_object = [(''chain_id'', JString ''chainA''), (''created'', JString ''t0''),
                       (''last_modified'', JString ''t0''), (''weak_password'', JBoolean False)],
      storage = [''encrypted_wallet'' \<mapsto> VStr ''ct0'', ''remote_copy'' \<mapsto> VBool True,
                 ''remote_hash'' \<mapsto> VStr ''0tc'', ''remote_updated_date'' \<mapsto> VStr ''t0''],
      subscribers = [0],
      local_status = SNull,
      remote_status = SStr ''Not Modified'',
      private_key = Some (PrivateKey ''k0''),
      notify = False,
      api = True,
      subscriptions = [PublicKey ''k0''],
      calls = []\<rparr>"

text \<open>The same container after \<open>logout\<close> has cleared the private key.\<close>

definition locked_container :: WalletStorage where
  "locked_container = synced_container\<lparr>private_key := None\<rparr>"

text \<open>An unlocked container without a server: no transport, no \<open>remote_copy\<close>.\<close>

definition local_container :: WalletStorage where
  "local_container =
     synced_container\<lparr>storage := [''encrypted_wallet'' \<mapsto> VStr ''ct0''],
                      remote_status := SUndefined,
                      api := False,
                      subscriptions := []\<rparr>"

text \<open>
  A container whose stored \<open>remote_hash\<close> names a version that is neither the local
  ciphertext nor necessarily the server's.
\<close>

definition diverged_container :: WalletStorage where
  "diverged_container =
     synced_container\<lparr>storage := (storage synced_container)(''remote_hash'' \<mapsto> VStr ''old'')\<rparr>"

text \<open>A server wallet with the given status and hash.\<close>

definition server_wallet :: "jsstr \<Rightarrow> string \<Rightarrow> reply" where
  "server_wallet status h =
     \<lparr>r_statusText = status, r_local_hash = SStr h, r_encrypted_data = SStr ''ct1'',
      r_created = SStr ''t0'', r_updated = SStr ''t1''\<rparr>"



section \<open>Notions used in the statements\<close>



text \<open>
  \<open>base64(local_hash())\<close>: the hash of the stored ciphertext in base64, \<open>null\<close> when
  there is none.
\<close>

definition local_hash_base64 :: "ext \<Rightarrow> WalletStorage \<Rightarrow> jsstr" where
  "local_hash_base64 cr st =
     (case localHash cr st of Inr (Some b) \<Rightarrow> SStr (to_base64 cr b) | _ \<Rightarrow> SNull)"

text \<open>\<open>remote_copy\<close> is a boolean, or absent.\<close>

definition boolean_or_absent :: "jsval \<Rightarrow> bool" where
  "boolean_or_absent v = (case v of VUndefined \<Rightarrow> True | VBool b \<Rightarrow> True | _ \<Rightarrow> False)"

text \<open>
  What the callback given to \<open>this.api.changePassword(...).then\<close> does to the container
  when it is handed the reply \<open>json\<close>. No run of \<open>changePassword\<close> reaches it (see
  above); it is kept to say what the handler would store.
\<close>

definition changePassword_reply :: "WalletStorage \<Rightarrow> reply \<Rightarrow> WalletStorage" where
  "changePassword_reply st json =
     (if r_statusText json \<noteq> SStr ''OK'' then st
      else if \<not> truthy (js (r_local_hash json)) then st
      else if \<not> truthy (js (r_updated json)) then st
      else st\<lparr>storage := storage_setState (storage st)
                  [(''remote_hash'', js (r_local_hash json)),
                   (''remote_updated'', js (r_updated json))],
              notify := True\<rparr>)"

section \<open>setState\<close>

text \<open>
  C8. On a locked container (no private key) \<open>setState\<close> throws \<open>wallet_locked\<close>
  before it returns, and the container is as it was: wallet object, statuses, storage,
  the notify flag and the record of calls (so no subscriber was notified).
\<close>

theorem setState_locked:
  "private_key st = None \<Longrightarrow> setState cr now st x resp = (Throws WalletLocked, st)"
  by (simp add: setState_def)

theorem setState_locked_witness:
  "private_key locked_container = None \<and>
   setState demo_ext ''t1'' locked_container (JObject [(''k'', JNumber 1)]) (Failure [])
     = (Throws WalletLocked, locked_container)"
  using setState_locked [of locked_container demo_ext "''t1''"
      "JObject [(''k'', JNumber 1)]" "Failure []"]
  by (simp add: locked_container_def)

lemma setState_same:
  assumes "mergeDeep cr (wallet_object st) x = wallet_object st"
  shows "snd (setState cr now st x resp) = st"
  using assms by (simp add: setState_def)

text \<open>
  C7. On an unlocked, initialised container, when merging the argument into the wallet
  object gives the tree that was there, \<open>setState\<close> resolves and leaves the container
  exactly as it was: \<open>last_modified\<close> and \<open>local_status\<close> are untouched, nothing is
  encrypted or stored, and no subscriber is notified. Hence, of two calls with the same
  argument, the second one adds to the record of calls (notifications included) only if
  its merge changed the tree.
\<close>

theorem setState_noop:
  "(private_key st \<noteq> None \<and> has_key (wallet_object st) ''created'' \<and>
      mergeDeep cr (wallet_object st) x = wallet_object st
    \<longrightarrow> setState cr now st x resp = (Resolves, st)) \<and>
   (calls (snd (setState cr now' (snd (setState cr now st x resp)) x resp'))
      \<noteq> calls (snd (setState cr now st x resp))
    \<longrightarrow> mergeDeep cr (wallet_object (snd (setState cr now st x resp))) x
          \<noteq> wallet_object (snd (setState cr now st x resp)))"
proof (intro conjI impI)
  assume "private_key st \<noteq> None \<and> has_key (wallet_object st) ''created'' \<and>
      mergeDeep cr (wallet_object st) x = wallet_object st"
  then show "setState cr now st x resp = (Resolves, st)"
    by (simp add: setState_def)
next
  let ?st1 = "snd (setState cr now st x resp)"
  assume changed: "calls (snd (setState cr now' ?st1 x resp')) \<noteq> calls ?st1"
  show "mergeDeep cr (wallet_object ?st1) x \<noteq> wallet_object ?st1"
  proof
    assume "mergeDeep cr (wallet_object ?st1) x = wallet_object ?st1"
    then have "snd (setState cr now' ?st1 x resp') = ?st1"
      by (rule setState_same)
    with changed show False by simp
  qed
qed

text \<open>
  An instance: merging \<open>{chain_id: "chainA"}\<close> changes nothing; merging
  \<open>{last_modified: "x"}\<close> twice changes the tree both times, since the first call
  stamps \<open>last_modified\<close> with the time.
\<close>

theorem setState_noop_witness:
  "(private_key local_container \<noteq> None \<and> has_key (wallet_object local_container) ''created'' \<and>
    mergeDeep demo_ext (wallet_object local_container) (JObject [(''chain_id'', JString ''chainA'')])
      = wallet_object local_container \<and>
    setState demo_ext ''t1'' local_container (JObject [(''chain_id'', JString ''chainA'')]) (Failure [])
      = (Resolves, local_container)) \<and>
   (calls (snd (setState demo_ext ''t2''
              (snd (setState demo_ext ''t1'' local_container
                      (JObject [(''last_modified'', JString ''x'')]) (Failure [])))
              (JObject [(''last_modified'', JString ''x'')]) (Failure [])))
      \<noteq> calls (snd (setState demo_ext ''t1'' local_container
                      (JObject [(''last_modified'', JString ''x'')]) (Failure []))) \<and>
    mergeDeep demo_ext
        (wallet_object (snd (setState demo_ext ''t1'' local_container
                               (JObject [(''last_modified'', JString ''x'')]) (Failure []))))
        (JObject [(''last_modified'', JString ''x'')])
      \<noteq> wallet_object (snd (setState demo_ext ''t1'' local_container
                               (JObject [(''last_modified'', JString ''x'')]) (Failure []))))"
proof -
  have a: "private_key local_container \<noteq> None \<and>
    has_key (wallet_object local_container) ''created'' \<and>
    mergeDeep demo_ext (wallet_object local_container) (JObject [(''chain_id'', JString ''chainA'')])
      = wallet_object local_container"
    by (simp add: local_container_def synced_container_def demo_ext_def has_key_def
        mergeDeep_spec_def)
  have b: "calls (snd (setState demo_ext ''t2''
              (snd (setState demo_ext ''t1'' local_container
                      (JObject [(''last_modified'', JString ''x'')]) (Failure [])))
              (JObject [(''last_modified'', JString ''x'')]) (Failure [])))
      \<noteq> calls (snd (setState demo_ext ''t1'' local_container
                      (JObject [(''last_modified'', JString ''x'')]) (Failure [])))"
    by (simp add: setState_def local_container_def synced_container_def demo_ext_def
        has_key_def mergeDeep_spec_def updateWallet_def Let_def state_get_def
        notifySubscribers_def)
  show ?thesis
    using a b
      setState_noop [where st = local_container and cr = demo_ext and now = "''t1''"
        and x = "JObject [(''chain_id'', JString ''chainA'')]" and resp = "Failure []"]
      setState_noop [where st = local_container and cr = demo_ext and now = "''t1''"
        and x = "JObject [(''last_modified'', JString ''x'')]" and resp = "Failure []"
        and now' = "''t2''" and resp' = "Failure []"]
    by blast
qed

section \<open>fetchWallet\<close>





text \<open>
  C1, as amended. When the server reports a wallet (a hash \<open>nh\<close>), a non-empty
  \<open>encrypted_wallet\<close> is stored, \<open>remote_copy\<close> is \<open>true\<close>, the local hash differs from
  the stored \<open>remote_hash\<close> (local_mod), the stored \<open>remote_hash\<close> differs from the
  server's hash (server_mod), the local hash also differs from the server's hash, and a
  \<open>statusText\<close> that is present is one the handler accepts, then \<open>fetchWallet\<close> throws
  the Conflict error with \<open>remote_status = "Conflict"\<close>; the container is otherwise as it
  was except for the stored \<open>remote_hash\<close> and the notify flag: no call was made (no
  push) and neither the ciphertext nor the wallet object was replaced (no pull).
  \<open>fetchWalletCallback\<close> turns the throw into a rejected promise.
\<close>

theorem fetchWallet_conflict:
  assumes "storage st ''encrypted_wallet'' = Some (VStr ew)" and "ew \<noteq> []"
    and "r_local_hash sw = SStr nh"
    and "state_get (storage st) ''remote_copy'' = VBool True"
    and "VStr (to_base64 cr (sha256 cr (from_base64 cr ew)))
           \<noteq> state_get (storage st) ''remote_hash''"
    and "state_get (storage st) ''remote_hash'' \<noteq> VStr nh"
    and "to_base64 cr (sha256 cr (from_base64 cr ew)) \<noteq> nh"
    and "truthy (js (r_statusText sw)) \<Longrightarrow>
           regex_test [''OK'', ''No Content'', ''Not Modified''] (r_statusText sw)"
  shows "fetchWallet cr st sw pk resp =
           (Throws Conflict,
            st\<lparr>storage := (storage st)(''remote_hash'' \<mapsto> VStr nh),
               remote_status := SStr ''Conflict'',
               notify := True\<rparr>)
       \<and> fst (fetchWalletCallback cr st sw pk resp) = Rejects Conflict"
proof -
  have fetch: "fetchWallet cr st sw pk resp =
           (Throws Conflict,
            st\<lparr>storage := (storage st)(''remote_hash'' \<mapsto> VStr nh),
               remote_status := SStr ''Conflict'',
               notify := True\<rparr>)"
  proof (cases "truthy (js (r_statusText sw))")
    case True
    with assms show ?thesis
      by (simp add: fetchWallet_def fetchWallet_begin_def fetchWallet_reconcile_def
          state_has_def localHash_def state_get_def Let_def)
  next
    case False
    have "regex_test [''OK'', ''No Content'', ''Not Modified''] (SStr ''OK'')"
      by (simp add: regex_test_def)
    with False assms show ?thesis
      by (simp add: fetchWallet_def fetchWallet_begin_def fetchWallet_reconcile_def
          state_has_def localHash_def state_get_def Let_def)
  qed
  then have "fst (fetchWalletCallback cr st sw pk resp) = Rejects Conflict"
    by (simp add: fetchWalletCallback_def Let_def)
  with fetch show ?thesis by simp
qed

text \<open>
  An instance: the local hash is "0tc", the stored \<open>remote_hash\<close> is "old", and the
  first fetch answers "OK" with the hash "new".
\<close>

theorem fetchWallet_conflict_witness:
  "storage diverged_container ''encrypted_wallet'' = Some (VStr ''ct0'') \<and>
   r_local_hash (server_wallet (SStr ''OK'') ''new'') = SStr ''new'' \<and>
   state_get (storage diverged_container) ''remote_copy'' = VBool True \<and>
   VStr (to_base64 demo_ext (sha256 demo_ext (from_base64 demo_ext ''ct0'')))
     \<noteq> state_get (storage diverged_container) ''remote_hash'' \<and>
   state_get (storage diverged_container) ''remote_hash'' \<noteq> VStr ''new'' \<and>
   to_base64 demo_ext (sha256 demo_ext (from_base64 demo_ext ''ct0'')) \<noteq> ''new'' \<and>
   truthy (js (r_statusText (server_wallet (SStr ''OK'') ''new''))) \<and>
   regex_test [''OK'', ''No Content'', ''Not Modified'']
     (r_statusText (server_wallet (SStr ''OK'') ''new'')) \<and>
   fetchWallet demo_ext diverged_container (server_wallet (SStr ''OK'') ''new'')
       (PrivateKey ''k0'') (Failure [])
     = (Throws Conflict,
        diverged_container\<lparr>storage := (storage diverged_container)(''remote_hash'' \<mapsto> VStr ''new''),
                           remote_status := SStr ''Conflict'',
                           notify := True\<rparr>)"
proof -
  have h1: "storage diverged_container ''encrypted_wallet'' = Some (VStr ''ct0'')"
    and h2: "''ct0'' \<noteq> []"
    and h3: "r_local_hash (server_wallet (SStr ''OK'') ''new'') = SStr ''new''"
    and h4: "state_get (storage diverged_container) ''remote_copy'' = VBool True"
    and h5: "VStr (to_base64 demo_ext (sha256 demo_ext (from_base64 demo_ext ''ct0'')))
               \<noteq> state_get (storage diverged_container) ''remote_hash''"
    and h6: "state_get (storage diverged_container) ''remote_hash'' \<noteq> VStr ''new''"
    and h7: "to_base64 demo_ext (sha256 demo_ext (from_base64 demo_ext ''ct0'')) \<noteq> ''new''"
    and h8: "truthy (js (r_statusText (server_wallet (SStr ''OK'') ''new'')))"
    and h9: "regex_test [''OK'', ''No Content'', ''Not Modified'']
               (r_statusText (server_wallet (SStr ''OK'') ''new''))"
    by (simp_all add: diverged_container_def synced_container_def server_wallet_def
        state_get_def demo_ext_def regex_test_def)
  show ?thesis
    using h1 h3 h4 h5 h6 h7 h8 h9
      fetchWallet_conflict [OF h1 h2 h3 h4 h5 h6 h7 h9, of "PrivateKey ''k0''" "Failure []"]
    by simp
qed

text \<open>
  When the server's hash is the local hash, \<open>fetchWallet\<close> returns without a call
  and without replacing anything, whatever the stored \<open>remote_hash\<close> was.
\<close>

lemma fetchWallet_same_ciphertext:
  assumes "storage st ''encrypted_wallet'' = Some (VStr ew)" and "ew \<noteq> []"
    and "r_local_hash sw = SStr (to_base64 cr (sha256 cr (from_base64 cr ew)))"
    and "state_get (storage st) ''remote_copy'' \<noteq> VBool False"
    and "truthy (js (r_statusText sw)) \<Longrightarrow>
           regex_test [''OK'', ''No Content'', ''Not Modified''] (r_statusText sw)"
  shows "fst (fetchWallet cr st sw pk resp) = Resolves
       \<and> calls (snd (fetchWallet cr st sw pk resp)) = calls st
       \<and> wallet_object (snd (fetchWallet cr st sw pk resp)) = wallet_object st
       \<and> storage (snd (fetchWallet cr st sw pk resp))
           = (storage st)(''remote_hash'' \<mapsto>
                VStr (to_base64 cr (sha256 cr (from_base64 cr ew))))"
proof (cases "truthy (js (r_statusText sw))")
  case True
  with assms show ?thesis
    by (simp add: fetchWallet_def fetchWallet_begin_def fetchWallet_reconcile_def
        state_has_def localHash_def state_get_def Let_def)
next
  case False
  have "regex_test [''OK'', ''No Content'', ''Not Modified''] (SStr ''Not Modified'')"
    by (simp add: regex_test_def)
  with False assms show ?thesis
    by (simp add: fetchWallet_def fetchWallet_begin_def fetchWallet_reconcile_def
        state_has_def localHash_def state_get_def Let_def)
qed

text \<open>
  C1 as stated fails: with the local hash "0tc", the stored \<open>remote_hash\<close> "old" and a
  server that reports the hash "0tc", both local_mod and server_mod hold, but the local
  and the server's ciphertext are the same; \<open>fetchWallet\<close> returns at its test
  \<open>local_hash === new_hash\<close> without an error, and \<open>remote_status\<close> stays
  "Not Modified".
\<close>

theorem fetchWallet_conflict_counterexample:
  "r_local_hash (server_wallet (SStr ''Not Modified'') ''0tc'') = SStr ''0tc'' \<and>
   state_get (storage diverged_container) ''remote_copy'' = VBool True \<and>
   storage diverged_container ''encrypted_wallet'' = Some (VStr ''ct0'') \<and>
   local_hash_base64 demo_ext diverged_container = SStr ''0tc'' \<and>
   VStr ''0tc'' \<noteq> state_get (storage diverged_container) ''remote_hash'' \<and>
   state_get (storage diverged_container) ''remote_hash'' \<noteq> VStr ''0tc'' \<and>
   fetchWallet demo_ext diverged_container (server_wallet (SStr ''Not Modified'') ''0tc'')
       (PrivateKey ''k0'') (Failure [])
     = (Resolves,
        diverged_container\<lparr>storage := (storage diverged_container)(''remote_hash'' \<mapsto> VStr ''0tc''),
                           notify := True\<rparr>) \<and>
   remote_status diverged_container = SStr ''Not Modified''"
  by (simp add: fetchWallet_def fetchWallet_begin_def fetchWallet_reconcile_def
      state_has_def localHash_def state_get_def Let_def diverged_container_def
      synced_container_def server_wallet_def demo_ext_def regex_test_def local_hash_base64_def)

section \<open>deleteRemoteWallet\<close>

text \<open>
  C9. On a container with a transport, \<open>deleteRemoteWallet\<close> signs the hash it is
  given: a Buffer as it is, a base64 string decoded, and when none is given the SHA-256
  of the stored ciphertext. It calls the transport's \<open>deleteWallet\<close> with that hash and
  the signature, and when the transport fulfils the call it removes \<open>remote_hash\<close>,
  \<open>remote_created_date\<close> and \<open>remote_updated_date\<close> from the storage and nothing else;
  \<open>encrypted_wallet\<close> in particular is kept. When the transport rejects the call, the
  storage is as it was.
\<close>

theorem deleteRemoteWallet_clears:
  assumes "api st"
    and "h = HBuffer hash
         \<or> (\<exists>s. h = HValue (SStr s) \<and> hash = from_base64 cr s)
         \<or> (\<exists>ew. h = HValue SUndefined \<and> storage st ''encrypted_wallet'' = Some (VStr ew)
                \<and> ew \<noteq> [] \<and> hash = sha256 cr (from_base64 cr ew))"
  shows "deleteRemoteWallet cr st pk h (Reply json) =
           (Resolves,
            st\<lparr>calls := calls st @ [DeleteWallet hash (signBufferSha256 cr hash pk)],
               notify := True,
               storage := (storage st)(''remote_hash'' := None, ''remote_created_date'' := None,
                                       ''remote_updated_date'' := None)\<rparr>)
       \<and> storage (snd (deleteRemoteWallet cr st pk h (Reply json))) ''encrypted_wallet''
           = storage st ''encrypted_wallet''
       \<and> deleteRemoteWallet cr st pk h (Failure m) =
           (Rejects (TransportError m),
            st\<lparr>calls := calls st @ [DeleteWallet hash (signBufferSha256 cr hash pk)]\<rparr>)"
  using assms
  by (auto simp add: deleteRemoteWallet_def hash_buffer_def localHash_def state_get_def Let_def)

text \<open>
  Three instances on the container in sync: the Buffer "h9" is signed and sent as it
  is; the base64 string "aGFzaA" is decoded first (here to itself); and with no hash
  given, the hash "0tc" of the stored ciphertext "ct0" is signed and sent. Each time
  the three fields are removed and the ciphertext stays.
\<close>

theorem deleteRemoteWallet_clears_witness:
  "api synced_container \<and>
   storage synced_container ''encrypted_wallet'' = Some (VStr ''ct0'') \<and>
   deleteRemoteWallet demo_ext synced_container (PrivateKey ''k0'') (HBuffer (Buffer ''h9''))
       (Reply (server_wallet SUndefined []))
     = (Resolves,
        synced_container
          \<lparr>calls := [DeleteWallet (Buffer ''h9'') (Signature ''k0h9'')],
           notify := True,
           storage := [''encrypted_wallet'' \<mapsto> VStr ''ct0'', ''remote_copy'' \<mapsto> VBool True]\<rparr>) \<and>
   deleteRemoteWallet demo_ext synced_container (PrivateKey ''k0'') (HValue (SStr ''aGFzaA''))
       (Reply (server_wallet SUndefined []))
     = (Resolves,
        synced_container
          \<lparr>calls := [DeleteWallet (Buffer ''aGFzaA'') (Signature ''k0aGFzaA'')],
           notify := True,
           storage := [''encrypted_wallet'' \<mapsto> VStr ''ct0'', ''remote_copy'' \<mapsto> VBool True]\<rparr>) \<and>
   deleteRemoteWallet demo_ext synced_container (PrivateKey ''k0'') (HValue SUndefined)
       (Reply (server_wallet SUndefined []))
     = (Resolves,
        synced_container
          \<lparr>calls := [DeleteWallet (Buffer ''0tc'') (Signature ''k00tc'')],
           notify := True,
           storage := [''encrypted_wallet'' \<mapsto> VStr ''ct0'', ''remote_copy'' \<mapsto> VBool True]\<rparr>)"
proof -
  have a: "api synced_container"
    and w: "storage synced_container ''encrypted_wallet'' = Some (VStr ''ct0'')"
    by (simp_all add: synced_container_def)
  have m: "(storage synced_container)(''remote_hash'' := None, ''remote_created_date'' := None,
              ''remote_updated_date'' := None)
            = [''encrypted_wallet'' \<mapsto> VStr ''ct0'', ''remote_copy'' \<mapsto> VBool True]"
    by (rule ext) (simp add: synced_container_def)
  have c: "calls synced_container = []"
    by (simp add: synced_container_def)
  have s: "signBufferSha256 demo_ext (Buffer x) (PrivateKey ''k0'') = Signature (''k0'' @ x)"
    "from_base64 demo_ext x = Buffer x" "sha256 demo_ext (Buffer x) = Buffer (rev x)" for x
    by (simp_all add: demo_ext_def)
  show ?thesis
    using a w m c s
      deleteRemoteWallet_clears [OF a, of "HBuffer (Buffer ''h9'')" "Buffer ''h9''" demo_ext
        "PrivateKey ''k0''" "server_wallet SUndefined []"]
      deleteRemoteWallet_clears [OF a, of "HValue (SStr ''aGFzaA'')" "Buffer ''aGFzaA''" demo_ext
        "PrivateKey ''k0''" "server_wallet SUndefined []"]
      deleteRemoteWallet_clears [OF a, of "HValue SUndefined" "Buffer ''0tc''" demo_ext
        "PrivateKey ''k0''" "server_wallet SUndefined []"]
    by simp
qed

section \<open>changePassword\<close>

text \<open>
  C4, as amended. On an unlocked container with a non-empty \<open>encrypted_wallet\<close>, with
  \<open>remote_copy === true\<close> and a stored \<open>remote_hash\<close> that is not the base64 hash of
  the stored ciphertext, \<open>changePassword\<close> throws before it returns and leaves the
  container as it was (nothing is encrypted, neither the wallet object nor the storage
  changes). The error is \<open>wallet_modified\<close> when a password is given and neither email
  nor username is blank; it is \<open>password_required\<close> without a password, and the
  assertion on weak passwords when email or username is blank, both raised first.
\<close>

theorem changePassword_modified:
  assumes "private_key st = Some k"
    and "storage st ''encrypted_wallet'' = Some (VStr ew)" and "ew \<noteq> []"
    and "state_get (storage st) ''remote_copy'' = VBool True"
    and "state_get (storage st) ''remote_hash''
           \<noteq> VStr (to_base64 cr (sha256 cr (from_base64 cr ew)))"
  shows "changePassword cr now st password email username =
           (Throws (case password of
                      None \<Rightarrow> Required ''password''
                    | Some p \<Rightarrow>
                        if trim cr (case email of None \<Rightarrow> [] | Some e \<Rightarrow> e) = [] \<or>
                           trim cr (case username of None \<Rightarrow> [] | Some u \<Rightarrow> u) = []
                        then AssertionError
                               ''Remote copies are enabled, but an email or username is missing''
                        else WalletModified),
            st)"
  using assms
  by (auto simp add: changePassword_def req_def localHash_def state_get_def Let_def
      split: option.splits)

text \<open>An instance with all three credentials: \<open>wallet_modified\<close>.\<close>

theorem changePassword_modified_witness:
  "private_key diverged_container = Some (PrivateKey ''k0'') \<and>
   storage diverged_container ''encrypted_wallet'' = Some (VStr ''ct0'') \<and>
   state_get (storage diverged_container) ''remote_copy'' = VBool True \<and>
   state_get (storage diverged_container) ''remote_hash''
     \<noteq> VStr (to_base64 demo_ext (sha256 demo_ext (from_base64 demo_ext ''ct0''))) \<and>
   changePassword demo_ext ''t1'' diverged_container (Some ''pw2'') (Some ''a@x'') (Some ''alice'')
     = (Throws WalletModified, diverged_container)"
proof -
  have h1: "private_key diverged_container = Some (PrivateKey ''k0'')"
    and h2: "storage diverged_container ''encrypted_wallet'' = Some (VStr ''ct0'')"
    and h3: "''ct0'' \<noteq> []"
    and h4: "state_get (storage diverged_container) ''remote_copy'' = VBool True"
    and h5: "state_get (storage diverged_container) ''remote_hash''
               \<noteq> VStr (to_base64 demo_ext (sha256 demo_ext (from_base64 demo_ext ''ct0'')))"
    by (simp_all add: diverged_container_def synced_container_def state_get_def demo_ext_def)
  have t: "trim demo_ext ''a@x'' \<noteq> []" "trim demo_ext ''alice'' \<noteq> []"
    by (simp_all add: trim_def demo_ext_def ascii_space_def)
  show ?thesis
    using h1 h2 h4 h5 t
      changePassword_modified [OF h1 h2 h3 h4 h5, of "''t1''" "Some ''pw2''" "Some ''a@x''"
        "Some ''alice''"]
    by simp
qed

text \<open>
  C4 as stated fails: the same container, called with a password only. Email and
  username default to the empty string, and the assertion on weak passwords fails
  before the hashes are compared.
\<close>

theorem changePassword_modified_counterexample:
  "private_key diverged_container = Some (PrivateKey ''k0'') \<and>
   storage diverged_container ''encrypted_wallet'' = Some (VStr ''ct0'') \<and>
   state_get (storage diverged_container) ''remote_copy'' = VBool True \<and>
   local_hash_base64 demo_ext diverged_container = SStr ''0tc'' \<and>
   state_get (storage diverged_container) ''remote_hash'' \<noteq> VStr ''0tc'' \<and>
   changePassword demo_ext ''t1'' diverged_container (Some ''pw2'') None None
     = (Throws (AssertionError
                  ''Remote copies are enabled, but an email or username is missing''),
        diverged_container)"
  by (simp add: changePassword_def req_def localHash_def state_get_def Let_def
      diverged_container_def synced_container_def demo_ext_def local_hash_base64_def trim_def)

lemma get_key_set_key: "get_key (set_key m k v) k = Some v"
  by (induction m) (auto simp add: get_key_def)

lemma trim_Nil: "trim cr [] = []"
  by (simp add: trim_def)

lemma toLowerCase_Nil: "toLowerCase cr [] = []"
  by (simp add: toLowerCase_def)

text \<open>
  C10. Called with a password only, on an unlocked container with a non-empty
  \<open>encrypted_wallet\<close> whose \<open>remote_copy\<close> (a boolean, or absent) is not \<open>true\<close>,
  \<open>changePassword\<close> resolves: the new key is derived from the seed made of two tabs
  and the password, \<open>weak_password\<close> is set to \<open>true\<close> in the wallet object, the wallet
  encrypted under the new key is stored, the container is unlocked with the new key and
  the subscribers are notified.
\<close>

theorem changePassword_password_only:
  assumes "private_key st = Some k"
    and "storage st ''encrypted_wallet'' = Some (VStr ew)" and "ew \<noteq> []"
    and "boolean_or_absent (state_get (storage st) ''remote_copy'')"
    and "state_get (storage st) ''remote_copy'' \<noteq> VBool True"
  shows "changePassword cr now st (Some password) None None =
           (Resolves,
            st\<lparr>wallet_object :=
                 merge_shallow (wallet_object st)
                   [(''last_modified'', JString now), (''weak_password'', JBoolean True)],
               storage := (storage st)(''encrypted_wallet'' \<mapsto>
                 VStr (to_base64 cr (encrypt cr
                   (merge_shallow (wallet_object st)
                      [(''last_modified'', JString now), (''weak_password'', JBoolean True)])
                   (toPublicKey cr (fromSeed cr ([CHR 0x09, CHR 0x09] @ password)))))),
               local_status := SNull,
               private_key := Some (fromSeed cr ([CHR 0x09, CHR 0x09] @ password)),
               notify := False,
               calls := calls st @
                 Encrypt (toPublicKey cr (fromSeed cr ([CHR 0x09, CHR 0x09] @ password)))
                 # map Notified (subscribers st)\<rparr>)
       \<and> get_key (wallet_object (snd (changePassword cr now st (Some password) None None)))
             ''weak_password'' = Some (JBoolean True)"
  using assms
  by (auto simp add: changePassword_def req_def localHash_def state_get_def Let_def
      boolean_or_absent_def trim_Nil toLowerCase_Nil notifySubscribers_def get_key_set_key
      split: option.splits jsval.splits)

text \<open>An instance: the container without a server, and the password "pw2".\<close>

theorem changePassword_password_only_witness:
  "private_key local_container = Some (PrivateKey ''k0'') \<and>
   storage local_container ''encrypted_wallet'' = Some (VStr ''ct0'') \<and>
   boolean_or_absent (state_get (storage local_container) ''remote_copy'') \<and>
   state_get (storage local_container) ''remote_copy'' \<noteq> VBool True \<and>
   fst (changePassword demo_ext ''t1'' local_container (Some ''pw2'') None None) = Resolves \<and>
   private_key (snd (changePassword demo_ext ''t1'' local_container (Some ''pw2'') None None))
     = Some (PrivateKey ([CHR 0x09, CHR 0x09] @ ''pw2'')) \<and>
   get_key (wallet_object (snd (changePassword demo_ext ''t1'' local_container (Some ''pw2'')
                                  None None)))
     ''weak_password'' = Some (JBoolean True)"
proof -
  have h1: "private_key local_container = Some (PrivateKey ''k0'')"
    and h2: "storage local_container ''encrypted_wallet'' = Some (VStr ''ct0'')"
    and h3: "''ct0'' \<noteq> []"
    and h4: "boolean_or_absent (state_get (storage local_container) ''remote_copy'')"
    and h5: "state_get (storage local_container) ''remote_copy'' \<noteq> VBool True"
    by (simp_all add: local_container_def synced_container_def state_get_def
        boolean_or_absent_def)
  have seed: "fromSeed demo_ext ([CHR 0x09, CHR 0x09] @ ''pw2'')
                = PrivateKey ([CHR 0x09, CHR 0x09] @ ''pw2'')"
    by (simp add: demo_ext_def)
  show ?thesis
    using h1 h2 h4 h5 seed
      changePassword_password_only [OF h1 h2 h3 h4 h5, of demo_ext "''t1''" "''pw2''"]
    by (simp add: get_key_set_key)
qed

subsection \<open>The remote path\<close>

text \<open>
  With a transport, \<open>remote_copy === true\<close>, a container in sync and credentials that
  are not weak, \<open>changePassword\<close> stores the wallet encrypted under the new key,
  unsubscribes the old public key when it is subscribed, and is rejected with the
  ReferenceError on \<open>old_private_key\<close>.
\<close>

lemma changePassword_remote_path:
  assumes "private_key st = Some old_key"
    and "storage st ''encrypted_wallet'' = Some (VStr ew)" and "ew \<noteq> []"
    and "api st"
    and "state_get (storage st) ''remote_copy'' = VBool True"
    and "state_get (storage st) ''remote_hash''
           = VStr (to_base64 cr (sha256 cr (from_base64 cr ew)))"
    and "trim cr email \<noteq> []" and "trim cr username \<noteq> []"
  shows "changePassword cr now st (Some password) (Some email) (Some username) =
           (Rejects (ReferenceError ''old_private_key''),
            st\<lparr>wallet_object :=
                 merge_shallow (wallet_object st)
                   [(''last_modified'', JString now), (''weak_password'', JBoolean False)],
               storage := (storage st)(''encrypted_wallet'' \<mapsto>
                 VStr (to_base64 cr (encrypt cr
                   (merge_shallow (wallet_object st)
                      [(''last_modified'', JString now), (''weak_password'', JBoolean False)])
                   (toPublicKey cr (fromSeed cr
                      (toLowerCase cr (trim cr email) @ [CHR 0x09] @
                       toLowerCase cr (trim cr username) @ [CHR 0x09] @ password)))))),
               local_status := SNull,
               notify := True,
               calls := calls st @
                 Encrypt (toPublicKey cr (fromSeed cr
                      (toLowerCase cr (trim cr email) @ [CHR 0x09] @
                       toLowerCase cr (trim cr username) @ [CHR 0x09] @ password)))
                 # (if toPublicKey cr old_key \<in> set (subscriptions st)
                    then [FetchWalletUnsubscribe (toPublicKey cr old_key)] else [])\<rparr>)"
  using assms
  by (simp add: changePassword_def req_def localHash_def state_get_def Let_def)

lemma synced_container_remote_path:
  "private_key synced_container = Some (PrivateKey ''k0'')"
  "storage synced_container ''encrypted_wallet'' = Some (VStr ''ct0'')"
  "''ct0'' \<noteq> []"
  "api synced_container"
  "state_get (storage synced_container) ''remote_copy'' = VBool True"
  "state_get (storage synced_container) ''remote_hash''
     = VStr (to_base64 demo_ext (sha256 demo_ext (from_base64 demo_ext ''ct0'')))"
  "trim demo_ext ''a@x'' \<noteq> []"
  "trim demo_ext ''alice'' \<noteq> []"
  by (simp_all add: synced_container_def state_get_def demo_ext_def trim_def ascii_space_def)

text \<open>
  C5. What the code does in the remote path, against the claim that it signs both
  hashes and calls the transport's \<open>change_password\<close>: the returned promise is rejected
  with the ReferenceError, among the calls made since the start there is no
  \<open>ChangePassword\<close>, and the private key is still the old one.
\<close>

theorem changePassword_remote_never_calls_transport:
  assumes "private_key st = Some old_key"
    and "storage st ''encrypted_wallet'' = Some (VStr ew)" and "ew \<noteq> []"
    and "api st"
    and "state_get (storage st) ''remote_copy'' = VBool True"
    and "state_get (storage st) ''remote_hash''
           = VStr (to_base64 cr (sha256 cr (from_base64 cr ew)))"
    and "trim cr email \<noteq> []" and "trim cr username \<noteq> []"
  shows "fst (changePassword cr now st (Some password) (Some email) (Some username))
           = Rejects (ReferenceError ''old_private_key'')
       \<and> (\<forall>h1 s1 d s2. ChangePassword h1 s1 d s2
             \<notin> set (drop (length (calls st))
                   (calls (snd (changePassword cr now st (Some password) (Some email)
                                  (Some username))))))
       \<and> private_key (snd (changePassword cr now st (Some password) (Some email) (Some username)))
           = Some old_key"
  using assms(1) changePassword_remote_path [OF assms, of now password]
  by simp

theorem changePassword_remote_never_calls_transport_witness:
  "private_key synced_container = Some (PrivateKey ''k0'') \<and>
   storage synced_container ''encrypted_wallet'' = Some (VStr ''ct0'') \<and>
   api synced_container \<and>
   state_get (storage synced_container) ''remote_copy'' = VBool True \<and>
   state_get (storage synced_container) ''remote_hash''
     = VStr (to_base64 demo_ext (sha256 demo_ext (from_base64 demo_ext ''ct0''))) \<and>
   trim demo_ext ''a@x'' \<noteq> [] \<and> trim demo_ext ''alice'' \<noteq> [] \<and>
   fst (changePassword demo_ext ''t1'' synced_container (Some ''pw2'') (Some ''a@x'')
          (Some ''alice''))
     = Rejects (ReferenceError ''old_private_key'') \<and>
   (\<forall>h1 s1 d s2. ChangePassword h1 s1 d s2
      \<notin> set (drop (length (calls synced_container))
            (calls (snd (changePassword demo_ext ''t1'' synced_container (Some ''pw2'')
                           (Some ''a@x'') (Some ''alice'')))))) \<and>
   private_key (snd (changePassword demo_ext ''t1'' synced_container (Some ''pw2'')
                       (Some ''a@x'') (Some ''alice'')))
     = Some (PrivateKey ''k0'')"
  using synced_container_remote_path
    changePassword_remote_never_calls_transport [OF synced_container_remote_path,
      of "''t1''" "''pw2''"]
  by simp

text \<open>
  The reply handler, which no run reaches, would on an "OK" reply store the reply's
  \<open>local_hash\<close> as \<open>remote_hash\<close> unchecked, and the reply's \<open>updated\<close> under the key
  \<open>remote_updated\<close>; \<open>remote_updated_date\<close> is not written.
\<close>

lemma changePassword_reply_keys:
  assumes "r_statusText json = SStr ''OK''"
    and "r_local_hash json = SStr h" and "h \<noteq> []"
    and "r_updated json = SStr u" and "u \<noteq> []"
  shows "storage (changePassword_reply st json)
           = (storage st)(''remote_hash'' \<mapsto> VStr h, ''remote_updated'' \<mapsto> VStr u)"
  using assms by (simp add: changePassword_reply_def)

text \<open>
  C6. What the code does, against the claim that an "OK" reply updates \<open>remote_hash\<close>
  and \<open>remote_updated_date\<close> and any other reply rejects with the reply. In the remote
  path \<open>changePassword\<close> takes no reply at all: it is rejected with the ReferenceError,
  and the stored \<open>remote_hash\<close> and \<open>remote_updated_date\<close> are what they were. The
  handler written for the reply, given an "OK" reply, stores its \<open>updated\<close> under the
  key \<open>remote_updated\<close> and leaves \<open>remote_updated_date\<close> as it was.
\<close>

theorem changePassword_remote_keeps_remote_fields:
  assumes "private_key st = Some old_key"
    and "storage st ''encrypted_wallet'' = Some (VStr ew)" and "ew \<noteq> []"
    and "api st"
    and "state_get (storage st) ''remote_copy'' = VBool True"
    and "state_get (storage st) ''remote_hash''
           = VStr (to_base64 cr (sha256 cr (from_base64 cr ew)))"
    and "trim cr email \<noteq> []" and "trim cr username \<noteq> []"
    and "r_statusText json = SStr ''OK''"
    and "r_local_hash json = SStr h" and "h \<noteq> []"
    and "r_updated json = SStr u" and "u \<noteq> []"
  shows "fst (changePassword cr now st (Some password) (Some email) (Some username))
           = Rejects (ReferenceError ''old_private_key'')
       \<and> storage (snd (changePassword cr now st (Some password) (Some email) (Some username)))
            ''remote_hash'' = storage st ''remote_hash''
       \<and> storage (snd (changePassword cr now st (Some password) (Some email) (Some username)))
            ''remote_updated_date'' = storage st ''remote_updated_date''
       \<and> storage (changePassword_reply st json) ''remote_updated'' = Some (VStr u)
       \<and> storage (changePassword_reply st json) ''remote_updated_date''
           = storage st ''remote_updated_date''"
  using changePassword_remote_path [OF assms(1-8), of now password]
    changePassword_reply_keys [OF assms(9-13), of st]
  by simp

text \<open>
  An instance: the container in sync, whose \<open>remote_updated_date\<close> is "t0", and the
  reply \<open>{statusText: "OK", local_hash: "h1", updated: "t1"}\<close>.
\<close>

theorem changePassword_remote_keeps_remote_fields_witness:
  "private_key synced_container = Some (PrivateKey ''k0'') \<and>
   storage synced_container ''encrypted_wallet'' = Some (VStr ''ct0'') \<and>
   api synced_container \<and>
   state_get (storage synced_container) ''remote_copy'' = VBool True \<and>
   state_get (storage synced_container) ''remote_hash''
     = VStr (to_base64 demo_ext (sha256 demo_ext (from_base64 demo_ext ''ct0''))) \<and>
   trim demo_ext ''a@x'' \<noteq> [] \<and> trim demo_ext ''alice'' \<noteq> [] \<and>
   r_statusText (server_wallet (SStr ''OK'') ''h1'') = SStr ''OK'' \<and>
   r_local_hash (server_wallet (SStr ''OK'') ''h1'') = SStr ''h1'' \<and>
   r_updated (server_wallet (SStr ''OK'') ''h1'') = SStr ''t1'' \<and>
   fst (changePassword demo_ext ''t1'' synced_container (Some ''pw2'') (Some ''a@x'')
          (Some ''alice''))
     = Rejects (ReferenceError ''old_private_key'') \<and>
   storage (snd (changePassword demo_ext ''t1'' synced_container (Some ''pw2'') (Some ''a@x'')
                   (Some ''alice''))) ''remote_hash'' = Some (VStr ''0tc'') \<and>
   storage (snd (changePassword demo_ext ''t1'' synced_container (Some ''pw2'') (Some ''a@x'')
                   (Some ''alice''))) ''remote_updated_date'' = Some (VStr ''t0'') \<and>
   storage (changePassword_reply synced_container (server_wallet (SStr ''OK'') ''h1''))
     ''remote_updated'' = Some (VStr ''t1'') \<and>
   storage (changePassword_reply synced_container (server_wallet (SStr ''OK'') ''h1''))
     ''remote_updated_date'' = Some (VStr ''t0'')"
proof -
  have before: "storage synced_container ''remote_hash'' = Some (VStr ''0tc'')"
    "storage synced_container ''remote_updated_date'' = Some (VStr ''t0'')"
    by (simp_all add: synced_container_def)
  have reply: "r_statusText (server_wallet (SStr ''OK'') ''h1'') = SStr ''OK''"
    "r_local_hash (server_wallet (SStr ''OK'') ''h1'') = SStr ''h1''" "''h1'' \<noteq> []"
    "r_updated (server_wallet (SStr ''OK'') ''h1'') = SStr ''t1''" "''t1'' \<noteq> []"
    by (simp_all add: server_wallet_def)
  show ?thesis
    using synced_container_remote_path before reply
      changePassword_remote_keeps_remote_fields [OF synced_container_remote_path reply,
        of "''t1''" "''pw2''"]
    by simp
qed

section \<open>The stored hash after a write to the server\<close>






end
